theory Spec2Isabelle
  imports Complex_Main "HOL-Library.Word"
begin

section \<open>JavaScript values\<close>

text \<open>
  The server (\<^verbatim>\<open>src/index.js\<close>) is a set of Express handlers. Each handler reads
  request data, may call a remote service through axios, and sends one response.
  The values the handlers inspect are JavaScript values: query parameters as the
  Express query parser produces them, JSON request bodies, and the data of upstream
  responses.

  A JavaScript string is a sequence of UTF-16 code units.
\<close>

type_synonym jsstring = "16 word list"

definition lit :: "string \<Rightarrow> jsstring" where
  "lit s = map (\<lambda>c. of_nat (of_char c)) s"

datatype jsnumber = Finite rat | PosInfinity | NegInfinity | NaN

datatype jsval =
    JUndefined
  | JNull
  | JBool bool
  | JNum jsnumber
  | JStr jsstring
  | JArr "jsval list"
  | JObj "(string \<times> jsval) list"

datatype js_error = TypeError | URIError

text \<open>Sequencing of computations that may throw: the first exception wins.\<close>

definition seq :: "js_error + 'a \<Rightarrow> ('a \<Rightarrow> js_error + 'b) \<Rightarrow> js_error + 'b" where
  "seq m f = (case m of Inl e \<Rightarrow> Inl e | Inr x \<Rightarrow> f x)"

text \<open>ToBoolean, as used by \<^verbatim>\<open>!x\<close>, \<^verbatim>\<open>x || y\<close>, \<^verbatim>\<open>if (x)\<close> and \<^verbatim>\<open>x ? a : b\<close>.\<close>

fun truthy :: "jsval \<Rightarrow> bool" where
  "truthy JUndefined = False"
| "truthy JNull = False"
| "truthy (JBool b) = b"
| "truthy (JNum (Finite r)) = (r \<noteq> 0)"
| "truthy (JNum NaN) = False"
| "truthy (JNum PosInfinity) = True"
| "truthy (JNum NegInfinity) = True"
| "truthy (JStr s) = (s \<noteq> [])"
| "truthy (JArr xs) = True"
| "truthy (JObj fs) = True"

text \<open>\<^verbatim>\<open>a || b\<close> on values.\<close>

definition js_or :: "jsval \<Rightarrow> jsval \<Rightarrow> jsval" where
  "js_or a b = (if truthy a then a else b)"

text \<open>Own-property lookup in an object; a missing property reads as \<^verbatim>\<open>undefined\<close>.\<close>

definition own_prop :: "(string \<times> jsval) list \<Rightarrow> string \<Rightarrow> jsval" where
  "own_prop fs k = (case map_of fs k of None \<Rightarrow> JUndefined | Some v \<Rightarrow> v)"

text \<open>
  Property access \<^verbatim>\<open>v.k\<close>. Reading a property of \<^verbatim>\<open>undefined\<close> or \<^verbatim>\<open>null\<close> throws a
  TypeError. The handlers read the names rss, channel, item, title, link, pubDate,
  description, articles, choices, message, content, error, access_token and token.
  Arrays, numbers and booleans inherit none of these from their prototypes, and a
  string inherits only \<^verbatim>\<open>link\<close>, which the handlers read only after \<^verbatim>\<open>title[0]\<close> of
  the same value, where a string has already thrown.
\<close>

fun get_prop :: "jsval \<Rightarrow> string \<Rightarrow> js_error + jsval" where
  "get_prop JUndefined k = Inl TypeError"
| "get_prop JNull k = Inl TypeError"
| "get_prop (JObj fs) k = Inr (own_prop fs k)"
| "get_prop (JBool b) k = Inr JUndefined"
| "get_prop (JNum n) k = Inr JUndefined"
| "get_prop (JStr s) k = Inr JUndefined"
| "get_prop (JArr xs) k = Inr JUndefined"

text \<open>Optional chaining \<^verbatim>\<open>v?.k\<close>: \<^verbatim>\<open>undefined\<close> instead of the TypeError.\<close>

definition opt_prop :: "jsval \<Rightarrow> string \<Rightarrow> jsval" where
  "opt_prop v k = (case get_prop v k of Inl e \<Rightarrow> JUndefined | Inr x \<Rightarrow> x)"

text \<open>Element access \<^verbatim>\<open>v[0]\<close>.\<close>

fun index0 :: "jsval \<Rightarrow> js_error + jsval" where
  "index0 JUndefined = Inl TypeError"
| "index0 JNull = Inl TypeError"
| "index0 (JArr xs) = Inr (case xs of [] \<Rightarrow> JUndefined | x # _ \<Rightarrow> x)"
| "index0 (JStr s) = Inr (case s of [] \<Rightarrow> JUndefined | c # _ \<Rightarrow> JStr [c])"
| "index0 (JObj fs) = Inr (own_prop fs ''0'')"
| "index0 (JBool b) = Inr JUndefined"
| "index0 (JNum n) = Inr JUndefined"

text \<open>
  A value is nullish when it is \<^verbatim>\<open>undefined\<close> or \<^verbatim>\<open>null\<close>. A feed item has an
  element \<open>k\<close> when the item and its property \<open>k\<close> are not nullish, which is when
  \<^verbatim>\<open>item.k[0]\<close> does not throw; \<open>first_value\<close> is then the value of \<^verbatim>\<open>item.k[0]\<close>.
\<close>

definition nullish :: "jsval \<Rightarrow> bool" where
  "nullish v \<longleftrightarrow> v = JUndefined \<or> v = JNull"

definition has_element :: "jsval \<Rightarrow> string \<Rightarrow> bool" where
  "has_element item k \<longleftrightarrow> \<not> nullish item \<and> \<not> nullish (opt_prop item k)"

definition first_value :: "jsval \<Rightarrow> string \<Rightarrow> jsval" where
  "first_value item k = (case index0 (opt_prop item k) of Inl e \<Rightarrow> JUndefined | Inr v \<Rightarrow> v)"

text \<open>
  ToString, as applied by template literals and by \<^verbatim>\<open>encodeURIComponent\<close>. The
  rendering of a number is the runtime's and is taken as the parameter \<open>num\<close>. An
  array joins (\<^verbatim>\<open>Array.prototype.join\<close>) its elements with commas, \<^verbatim>\<open>undefined\<close> and
  \<^verbatim>\<open>null\<close> elements rendering as the empty string. An object is converted by its
  \<^verbatim>\<open>toString\<close> method: the inherited one gives \<^verbatim>\<open>[object Object]\<close>; an own property
  \<^verbatim>\<open>toString\<close> hides it, and as no value parsed from a query string or from JSON is a
  function, the conversion then finds no method that yields a primitive (the
  inherited \<^verbatim>\<open>valueOf\<close> returns the object itself) and throws a TypeError.
\<close>

fun join :: "jsstring \<Rightarrow> jsstring list \<Rightarrow> jsstring" where
  "join sep [] = []"
| "join sep [s] = s"
| "join sep (s # t # ss) = s @ sep @ join sep (t # ss)"

fun to_string :: "(jsnumber \<Rightarrow> jsstring) \<Rightarrow> jsval \<Rightarrow> js_error + jsstring"
  and to_strings :: "(jsnumber \<Rightarrow> jsstring) \<Rightarrow> jsval list \<Rightarrow> js_error + jsstring list" where
  "to_string num JUndefined = Inr (lit ''undefined'')"
| "to_string num JNull = Inr (lit ''null'')"
| "to_string num (JBool b) = Inr (if b then lit ''true'' else lit ''false'')"
| "to_string num (JNum n) = Inr (num n)"
| "to_string num (JStr s) = Inr s"
| "to_string num (JArr xs) = seq (to_strings num xs) (\<lambda>ss. Inr (join (lit '','') ss))"
| "to_string num (JObj fs) =
     (if ''toString'' \<in> fst ` set fs then Inl TypeError else Inr (lit ''[object Object]''))"
| "to_strings num [] = Inr []"
| "to_strings num (x # xs) =
     seq (if x = JUndefined \<or> x = JNull then Inr [] else to_string num x) (\<lambda>s.
     seq (to_strings num xs) (\<lambda>ss. Inr (s # ss)))"

section \<open>String built-ins\<close>

text \<open>
  \<^verbatim>\<open>encodeURIComponent\<close>: letters, digits and \<^verbatim>\<open>- _ . ! ~ * ' ( )\<close> are kept; every
  other code point is written as the percent-escaped bytes of its UTF-8 encoding. A
  surrogate code unit without its partner throws a URIError.
\<close>

definition unreserved :: "16 word \<Rightarrow> bool" where
  "unreserved c \<longleftrightarrow>
     (0x41 \<le> c \<and> c \<le> 0x5A) \<or> (0x61 \<le> c \<and> c \<le> 0x7A) \<or> (0x30 \<le> c \<and> c \<le> 0x39) \<or>
     c \<in> set [0x2D, 0x5F, 0x2E, 0x21, 0x7E, 0x2A, 0x27, 0x28, 0x29]"

definition high_surrogate :: "16 word \<Rightarrow> bool" where
  "high_surrogate c \<longleftrightarrow> 0xD800 \<le> c \<and> c \<le> 0xDBFF"

definition low_surrogate :: "16 word \<Rightarrow> bool" where
  "low_surrogate c \<longleftrightarrow> 0xDC00 \<le> c \<and> c \<le> 0xDFFF"

definition code_point :: "16 word \<Rightarrow> 16 word \<Rightarrow> nat" where
  "code_point hi lo = 0x10000 + (unat hi - 0xD800) * 0x400 + (unat lo - 0xDC00)"

definition utf8 :: "nat \<Rightarrow> nat list" where
  "utf8 cp =
     (if cp < 0x80 then [cp]
      else if cp < 0x800 then [0xC0 + cp div 64, 0x80 + cp mod 64]
      else if cp < 0x10000 then
        [0xE0 + cp div 4096, 0x80 + (cp div 64) mod 64, 0x80 + cp mod 64]
      else
        [0xF0 + cp div 262144, 0x80 + (cp div 4096) mod 64,
         0x80 + (cp div 64) mod 64, 0x80 + cp mod 64])"

definition hex_digit :: "nat \<Rightarrow> 16 word" where
  "hex_digit d = (if d < 10 then of_nat (0x30 + d) else of_nat (0x41 + (d - 10)))"

definition percent :: "nat \<Rightarrow> jsstring" where
  "percent b = [0x25, hex_digit (b div 16), hex_digit (b mod 16)]"

definition escape :: "nat \<Rightarrow> jsstring" where
  "escape cp = concat (map percent (utf8 cp))"

fun encodeURIComponent :: "jsstring \<Rightarrow> js_error + jsstring" where
  "encodeURIComponent [] = Inr []"
| "encodeURIComponent (c # cs) =
     (if unreserved c then seq (encodeURIComponent cs) (\<lambda>r. Inr (c # r))
      else if high_surrogate c then
        (case cs of
           [] \<Rightarrow> Inl URIError
         | d # ds \<Rightarrow>
             if low_surrogate d
             then seq (encodeURIComponent ds) (\<lambda>r. Inr (escape (code_point c d) @ r))
             else Inl URIError)
      else if low_surrogate c then Inl URIError
      else seq (encodeURIComponent cs) (\<lambda>r. Inr (escape (unat c) @ r)))"

text \<open>
  \<^verbatim>\<open>String.prototype.trim\<close> removes white space and line terminators from both
  ends: TAB, LF, VT, FF, CR, SPACE, NBSP, U+1680, U+2000 to U+200A, U+2028, U+2029,
  U+202F, U+205F, U+3000 and U+FEFF.
\<close>

definition whitespace :: "16 word \<Rightarrow> bool" where
  "whitespace c \<longleftrightarrow>
     (0x09 \<le> c \<and> c \<le> 0x0D) \<or> c = 0x20 \<or> c = 0xA0 \<or> c = 0x1680 \<or>
     (0x2000 \<le> c \<and> c \<le> 0x200A) \<or> c = 0x2028 \<or> c = 0x2029 \<or> c = 0x202F \<or>
     c = 0x205F \<or> c = 0x3000 \<or> c = 0xFEFF"

definition trim :: "jsstring \<Rightarrow> jsstring" where
  "trim s = rev (dropWhile whitespace (rev (dropWhile whitespace s)))"

section \<open>Requests, responses and the outside world\<close>

text \<open>
  A handler answers with \<^verbatim>\<open>res.status(n).json(body)\<close> (status 200 when \<^verbatim>\<open>res.json\<close>
  is called alone) or with \<^verbatim>\<open>res.redirect(url)\<close>. An exception that no \<^verbatim>\<open>catch\<close> of
  the handler intercepts leaves the handler without a response of its own.
\<close>

datatype response = Json nat jsval | Redirect jsstring

datatype outcome = Responded response | Uncaught js_error

text \<open>The outbound HTTP requests, as the arguments given to axios.\<close>

datatype outbound =
    HttpGet jsstring
  | HttpPost jsstring jsval "(string \<times> jsval) list" "(string \<times> jsstring) list"

text \<open>
  An axios call resolves with a response, of which the handlers read \<^verbatim>\<open>data\<close>, or
  rejects with an error, of which they read \<^verbatim>\<open>error.response?.data\<close>
  (\<^verbatim>\<open>undefined\<close> when the error carries no response).
\<close>

datatype axios_result = Resolved jsval | Rejected jsval

text \<open>
  \<^verbatim>\<open>xml2js.parseString\<close> hands its callback either an error or the parsed tree.
\<close>

datatype parse_result = ParseError | Parsed jsval

text \<open>
  The world outside the handlers: the remote services behind axios, the XML parser of
  xml2js with what it does when its callback throws (\<open>rethrows\<close>), and the runtime's
  rendering of numbers.
\<close>

record world =
  axios :: "outbound \<Rightarrow> axios_result"
  parseString :: "jsval \<Rightarrow> parse_result"
  rethrows :: bool
  Number_toString :: "jsnumber \<Rightarrow> jsstring"

text \<open>\<^verbatim>\<open>process.env\<close>: each variable is a string or \<^verbatim>\<open>undefined\<close>.\<close>

record config =
  OPENROUTER_API_KEY :: "jsstring option"
  HTTP_REFERER :: "jsstring option"
  LINKEDIN_CLIENT_ID :: "jsstring option"
  LINKEDIN_CLIENT_SECRET :: "jsstring option"
  LINKEDIN_REDIRECT_URI :: "jsstring option"
  FRONTEND_URL :: "jsstring option"

definition env_val :: "jsstring option \<Rightarrow> jsval" where
  "env_val v = (case v of None \<Rightarrow> JUndefined | Some s \<Rightarrow> JStr s)"

text \<open>An environment variable inside a template literal.\<close>

definition env_text :: "jsstring option \<Rightarrow> jsstring" where
  "env_text v = (case v of None \<Rightarrow> lit ''undefined'' | Some s \<Rightarrow> s)"

text \<open>\<^verbatim>\<open>process.env.X || "default"\<close>.\<close>

definition env_or :: "jsstring option \<Rightarrow> jsstring \<Rightarrow> jsstring" where
  "env_or v d = (case v of None \<Rightarrow> d | Some s \<Rightarrow> if s = [] then d else s)"

definition error_body :: "string \<Rightarrow> jsval" where
  "error_body msg = JObj [(''error'', JStr (lit msg))]"

section \<open>GET /news\<close>

text \<open>The callback of \<^verbatim>\<open>items.map\<close> (lines 48 to 55).\<close>

definition to_article :: "jsval \<Rightarrow> js_error + jsval" where
  "to_article item =
     seq (seq (get_prop item ''title'') index0) (\<lambda>title.
     seq (seq (get_prop item ''link'') index0) (\<lambda>link.
     seq (seq (get_prop item ''pubDate'') index0) (\<lambda>pubDate.
     seq (get_prop item ''description'') (\<lambda>d.
     seq (if truthy d then index0 d else Inr (JStr (lit ''No description available'')))
       (\<lambda>description.
     Inr (JObj [(''title'', title), (''link'', link), (''pubDate'', pubDate),
                (''description'', description)]))))))"

text \<open>\<^verbatim>\<open>Array.prototype.map\<close> with a callback that may throw.\<close>

fun map_js :: "('a \<Rightarrow> js_error + 'b) \<Rightarrow> 'a list \<Rightarrow> js_error + 'b list" where
  "map_js f [] = Inr []"
| "map_js f (x # xs) = seq (f x) (\<lambda>y. seq (map_js f xs) (\<lambda>ys. Inr (y # ys)))"

text \<open>
  \<^verbatim>\<open>item.slice(0, 5)\<close> followed by \<^verbatim>\<open>.map\<close> (lines 47 and 48): an array gives its first
  five elements; a string has \<^verbatim>\<open>slice\<close> but its result has no \<^verbatim>\<open>map\<close>, and any other
  value has no \<^verbatim>\<open>slice\<close>, so both throw a TypeError.
\<close>

definition slice_0_5 :: "jsval \<Rightarrow> js_error + jsval list" where
  "slice_0_5 v = (case v of JArr xs \<Rightarrow> Inr (take 5 xs) | _ \<Rightarrow> Inl TypeError)"

text \<open>
  The callback given to \<^verbatim>\<open>xml2js.parseString\<close>, for a parsed tree (lines 35 to 57).
\<close>

definition news_parsed :: "jsval \<Rightarrow> js_error + response" where
  "news_parsed result =
     seq (get_prop result ''rss'') (\<lambda>rss.
       if \<not> truthy rss then Inr (Json 404 (error_body ''No articles found for this keyword''))
       else seq (get_prop rss ''channel'') (\<lambda>channel.
       if \<not> truthy channel
       then Inr (Json 404 (error_body ''No articles found for this keyword''))
       else seq (index0 channel) (\<lambda>channel0.
       if \<not> truthy channel0
       then Inr (Json 404 (error_body ''No articles found for this keyword''))
       else seq (get_prop channel0 ''item'') (\<lambda>item.
       if \<not> truthy item
       then Inr (Json 404 (error_body ''No articles found for this keyword''))
       else seq (slice_0_5 item) (\<lambda>items.
            seq (map_js to_article items) (\<lambda>articles.
            Inr (Json 200 (JObj [(''articles'', JArr articles)]))))))))"

text \<open>
  The handler (lines 15 to 63). xml2js runs the callback before \<^verbatim>\<open>parseString\<close>
  returns, inside the handler's \<^verbatim>\<open>try\<close>. When the callback throws on a parsed tree,
  xml2js either throws the exception on, so that it reaches the handler's \<^verbatim>\<open>catch\<close>,
  or runs the callback once more with the exception as the parse error.
\<close>

definition news :: "world \<Rightarrow> (string \<times> jsval) list \<Rightarrow> outcome \<times> outbound list" where
  "news w query =
     (let keyword = own_prop query ''keyword'' in
      if \<not> truthy keyword then (Responded (Json 400 (error_body ''Keyword is required'')), [])
      else
        (case seq (to_string (Number_toString w) keyword) encodeURIComponent of
           Inl e \<Rightarrow> (Responded (Json 500 (error_body ''Failed to fetch news'')), [])
         | Inr k \<Rightarrow>
             (let rssURL = lit ''https://news.google.com/rss/search?q='' @ k in
              (case axios w (HttpGet rssURL) of
                 Rejected d \<Rightarrow>
                   (Responded (Json 500 (error_body ''Failed to fetch news'')), [HttpGet rssURL])
               | Resolved data \<Rightarrow>
                   (case parseString w data of
                      ParseError \<Rightarrow>
                        (Responded (Json 500 (error_body ''Failed to parse RSS feed'')),
                         [HttpGet rssURL])
                    | Parsed result \<Rightarrow>
                        (case news_parsed result of
                           Inl e \<Rightarrow>
                             (Responded (Json 500 (error_body
                                (if rethrows w then ''Failed to fetch news''
                                 else ''Failed to parse RSS feed''))),
                              [HttpGet rssURL])
                         | Inr r \<Rightarrow> (Responded r, [HttpGet rssURL])))))))"

section \<open>POST /generate-post\<close>

definition is_array :: "jsval \<Rightarrow> bool" where
  "is_array v = (case v of JArr xs \<Rightarrow> True | _ \<Rightarrow> False)"

definition elements :: "jsval \<Rightarrow> jsval list" where
  "elements v = (case v of JArr xs \<Rightarrow> xs | _ \<Rightarrow> [])"

text \<open>
  The callback of \<^verbatim>\<open>articles.map\<close> (line 74), for the article \<open>a\<close> at index \<open>i\<close>:
  \<^verbatim>\<open>`(${i + 1}) ${a.title} - ${a.description}`\<close>.
\<close>

definition article_line :: "(jsnumber \<Rightarrow> jsstring) \<Rightarrow> nat \<times> jsval \<Rightarrow> js_error + jsstring" where
  "article_line num ia =
     (case ia of (i, a) \<Rightarrow>
        seq (seq (get_prop a ''title'') (to_string num)) (\<lambda>title.
        seq (seq (get_prop a ''description'') (to_string num)) (\<lambda>description.
        Inr (lit ''('' @ num (Finite (of_nat (i + 1))) @ lit '') '' @ title
             @ lit '' - '' @ description))))"

definition prompt_content :: "(jsnumber \<Rightarrow> jsstring) \<Rightarrow> jsval list \<Rightarrow> js_error + jsstring" where
  "prompt_content num articles =
     seq (map_js (article_line num) (enumerate 0 articles))
       (\<lambda>ls. Inr (join (lit ''\<newline>\<newline>'') ls))"

text \<open>The request to the chat-completion endpoint (lines 78 to 104).\<close>

definition chat_request :: "config \<Rightarrow> jsstring \<Rightarrow> outbound" where
  "chat_request cfg content =
     HttpPost (lit ''https://openrouter.ai/api/v1/chat/completions'')
       (JObj
         [(''model'', JStr (lit ''mistralai/mistral-7b-instruct'')),
          (''messages'', JArr
            [JObj [(''role'', JStr (lit ''system'')),
                   (''content'', JStr (lit (''You are an expert content writer who creates '' @
                      ''short, engaging, and opinionated LinkedIn posts based on recent news. '' @
                      ''Keep posts professional but engaging.'')))],
             JObj [(''role'', JStr (lit ''user'')),
                   (''content'', JStr (lit ''Here are some news articles:\<newline>\<newline>'' @ content @
                      lit (''\<newline>\<newline>Generate a 5-7 line opinionated LinkedIn post. '' @
                      ''Start directly with an opinion. Keep it relevant, thoughtful, and '' @
                      ''professional. Use emojis sparingly.'')))]]),
          (''temperature'', JNum (Finite (7 / 10))),
          (''max_tokens'', JNum (Finite 300))])
       []
       [(''Authorization'', lit ''Bearer '' @ env_text (OPENROUTER_API_KEY cfg)),
        (''Content-Type'', lit ''application/json''),
        (''HTTP-Referer'', env_or (HTTP_REFERER cfg) (lit ''http://localhost:3000'')),
        (''X-Title'', lit ''ai-newspost-generator'')]"

text \<open>\<^verbatim>\<open>v.trim()\<close>: only a string has the method.\<close>

definition call_trim :: "jsval \<Rightarrow> js_error + jsval" where
  "call_trim v = (case v of JStr s \<Rightarrow> Inr (JStr (trim s)) | _ \<Rightarrow> Inl TypeError)"

text \<open>\<^verbatim>\<open>response.data.choices[0].message.content.trim()\<close> (line 106).\<close>

definition first_choice_text :: "jsval \<Rightarrow> js_error + jsval" where
  "first_choice_text data =
     seq (get_prop data ''choices'') (\<lambda>choices.
     seq (index0 choices) (\<lambda>choice.
     seq (get_prop choice ''message'') (\<lambda>message.
     seq (get_prop message ''content'') call_trim)))"

text \<open>
  The body sent by the \<^verbatim>\<open>catch\<close> (lines 110 to 113), for \<^verbatim>\<open>error.response?.data\<close>.
\<close>

definition generate_failure :: "jsval \<Rightarrow> response" where
  "generate_failure d =
     Json 500 (JObj
       [(''error'', JStr (lit ''Failed to generate post'')),
        (''details'', js_or (opt_prop d ''error'') (JStr (lit ''AI service unavailable'')))])"

text \<open>
  The handler (lines 66 to 115). The destructuring of \<^verbatim>\<open>req.body\<close> and the assembly
  of the prompt come before the \<^verbatim>\<open>try\<close>, so an exception there is not caught. An
  exception while reading the upstream response is a plain error without a
  \<^verbatim>\<open>response\<close> field.
\<close>

definition generate_post :: "world \<Rightarrow> config \<Rightarrow> jsval \<Rightarrow> outcome \<times> outbound list" where
  "generate_post w cfg body =
     (case get_prop body ''articles'' of
        Inl e \<Rightarrow> (Uncaught e, [])
      | Inr articles \<Rightarrow>
          if \<not> truthy articles \<or> \<not> is_array articles \<or> length (elements articles) = 0
          then (Responded (Json 400 (error_body ''Articles required'')), [])
          else
            (case prompt_content (Number_toString w) (elements articles) of
               Inl e \<Rightarrow> (Uncaught e, [])
             | Inr content \<Rightarrow>
                 (case axios w (chat_request cfg content) of
                    Rejected d \<Rightarrow>
                      (Responded (generate_failure d), [chat_request cfg content])
                  | Resolved data \<Rightarrow>
                      (case first_choice_text data of
                         Inl e \<Rightarrow>
                           (Responded (generate_failure JUndefined),
                            [chat_request cfg content])
                       | Inr aiPost \<Rightarrow>
                           (Responded (Json 200 (JObj [(''post'', aiPost)])),
                            [chat_request cfg content])))))"

section \<open>GET /auth/linkedin\<close>

text \<open>The handler (lines 118 to 138).\<close>

definition auth_linkedin :: "config \<Rightarrow> outcome" where
  "auth_linkedin cfg =
     (let clientId = LINKEDIN_CLIENT_ID cfg;
          redirectUri = LINKEDIN_REDIRECT_URI cfg;
          scope = lit ''w_member_social''
      in
        if \<not> truthy (env_val clientId) \<or> \<not> truthy (env_val redirectUri)
        then Responded (Json 500 (error_body ''LinkedIn OAuth not configured''))
        else
          (case encodeURIComponent (env_text redirectUri) of
             Inl e \<Rightarrow> Uncaught e
           | Inr r \<Rightarrow>
               (case encodeURIComponent scope of
                  Inl e \<Rightarrow> Uncaught e
                | Inr s \<Rightarrow>
                    Responded (Redirect
                      (lit ''https://www.linkedin.com/oauth/v2/authorization'' @
                       lit ''?response_type=code&client_id='' @ env_text clientId @
                       lit ''&redirect_uri='' @ r @
                       lit ''&scope='' @ s)))))"

section \<open>GET /auth/linkedin/callback\<close>





section \<open>POST /linkedin/post\<close>

text \<open>
  The publish request (lines 216 to 238), for the text \<open>bearer\<close> of \<^verbatim>\<open>${token}\<close>.
\<close>

definition ugc_request :: "jsstring \<Rightarrow> jsval \<Rightarrow> outbound" where
  "ugc_request bearer content =
     HttpPost (lit ''https://api.linkedin.com/v2/ugcPosts'')
       (JObj
         [(''author'', JStr (lit ''urn:li:person:me'')),
          (''lifecycleState'', JStr (lit ''PUBLISHED'')),
          (''specificContent'', JObj
            [(''com.linkedin.ugc.ShareContent'', JObj
               [(''shareCommentary'', JObj [(''text'', content)]),
                (''shareMediaCategory'', JStr (lit ''NONE''))])]),
          (''visibility'', JObj
            [(''com.linkedin.ugc.MemberNetworkVisibility'', JStr (lit ''PUBLIC''))])])
       []
       [(''Authorization'', lit ''Bearer '' @ bearer),
        (''X-Restli-Protocol-Version'', lit ''2.0.0''),
        (''Content-Type'', lit ''application/json'')]"

text \<open>
  The body sent by the \<^verbatim>\<open>catch\<close> (lines 247 to 250), for \<^verbatim>\<open>error.response?.data\<close>.
\<close>

definition post_failure :: "jsval \<Rightarrow> response" where
  "post_failure d =
     Json 500 (JObj
       [(''error'', JStr (lit ''Failed to post on LinkedIn'')),
        (''details'', js_or (opt_prop d ''message'') (JStr (lit ''LinkedIn API error'')))])"

text \<open>
  The handler (lines 205 to 252). The destructuring of \<^verbatim>\<open>req.body\<close> reads \<^verbatim>\<open>token\<close>,
  then \<^verbatim>\<open>content\<close>, outside the \<^verbatim>\<open>try\<close>. The arguments of \<^verbatim>\<open>axios.post\<close> are
  evaluated inside the \<^verbatim>\<open>try\<close>, so an exception of \<^verbatim>\<open>${token}\<close> is caught, as a plain
  error without a \<^verbatim>\<open>response\<close> field, before any request is made.
\<close>

definition linkedin_post :: "world \<Rightarrow> jsval \<Rightarrow> outcome \<times> outbound list" where
  "linkedin_post w body =
     (case seq (get_prop body ''token'') (\<lambda>token.
           seq (get_prop body ''content'') (\<lambda>content. Inr (token, content))) of
        Inl e \<Rightarrow> (Uncaught e, [])
      | Inr (token, content) \<Rightarrow>
          if \<not> truthy token \<or> \<not> truthy content
          then (Responded (Json 400 (error_body ''Token and content required'')), [])
          else
            (case to_string (Number_toString w) token of
               Inl e \<Rightarrow> (Responded (post_failure JUndefined), [])
             | Inr bearer \<Rightarrow>
                 (case axios w (ugc_request bearer content) of
                    Rejected d \<Rightarrow>
                      (Responded (post_failure d), [ugc_request bearer content])
                  | Resolved data \<Rightarrow>
                      (Responded (Json 200 (JObj
                         [(''success'', JBool True),
                          (''message'', JStr (lit ''Posted on LinkedIn!''))])),
                       [ugc_request bearer content]))))"

section \<open>Well-formed text\<close>

text \<open>
  A string is well formed when every surrogate code unit is part of a pair. Text
  decoded from UTF-8, such as a query string or an environment variable, is well
  formed.
\<close>

fun well_formed :: "jsstring \<Rightarrow> bool" where
  "well_formed [] = True"
| "well_formed (c # cs) =
     (if high_surrogate c then
        (case cs of [] \<Rightarrow> False | d # ds \<Rightarrow> low_surrogate d \<and> well_formed ds)
      else \<not> low_surrogate c \<and> well_formed cs)"

section \<open>Example worlds\<close>

text \<open>
  Concrete configurations, services and requests on which the handlers are run
  below. The example runtime renders the natural numbers in decimal; the examples
  render no other number.
\<close>

fun digits :: "nat \<Rightarrow> jsstring" where
  "digits n = (if n < 10 then [of_nat (0x30 + n)] else digits (n div 10) @ [of_nat (0x30 + n mod 10)])"

declare digits.simps [simp del]

definition nat_text :: "jsnumber \<Rightarrow> jsstring" where
  "nat_text n =
     (case n of
        Finite r \<Rightarrow> if 0 \<le> r \<and> r = of_int \<lfloor>r\<rfloor> then digits (nat \<lfloor>r\<rfloor>) else []
      | PosInfinity \<Rightarrow> lit ''Infinity''
      | NegInfinity \<Rightarrow> lit ''-Infinity''
      | NaN \<Rightarrow> lit ''NaN'')"

text \<open>A world whose remote services always answer \<open>r\<close> and whose parser always yields \<open>p\<close>.\<close>

definition answering :: "axios_result \<Rightarrow> parse_result \<Rightarrow> world" where
  "answering r p =
     \<lparr>axios = (\<lambda>c. r), parseString = (\<lambda>v. p), rethrows = False, Number_toString = nat_text\<rparr>"

definition example_config :: config where
  "example_config =
     \<lparr>OPENROUTER_API_KEY = Some (lit ''key''),
      HTTP_REFERER = None,
      LINKEDIN_CLIENT_ID = Some (lit ''id123''),
      LINKEDIN_CLIENT_SECRET = Some (lit ''s3cret''),
      LINKEDIN_REDIRECT_URI = Some (lit ''https://app.example/cb''),
      FRONTEND_URL = None\<rparr>"

text \<open>
  A feed with one \<^verbatim>\<open>item\<close> element per given title and list of descriptions, and the
  tree xml2js builds for it with its default options: the children of an element are
  grouped by name into arrays, and an element with no content is the empty string.
\<close>

definition feed_item_xml :: "string \<times> string list \<Rightarrow> jsstring" where
  "feed_item_xml item =
     (case item of (t, ds) \<Rightarrow>
        lit ''<item><title>'' @ lit t @ lit ''</title><link>https://example.com/'' @ lit t @
        lit ''</link><pubDate>Mon, 02 Nov 2026</pubDate>'' @
        concat (map (\<lambda>d. lit ''<description>'' @ lit d @ lit ''</description>'') ds) @
        lit ''</item>'')"

definition feed_xml :: "(string \<times> string list) list \<Rightarrow> jsstring" where
  "feed_xml items =
     lit ''<rss><channel>'' @ concat (map feed_item_xml items) @ lit ''</channel></rss>''"

definition feed_item_tree :: "string \<times> string list \<Rightarrow> jsval" where
  "feed_item_tree item =
     (case item of (t, ds) \<Rightarrow>
        JObj ([(''title'', JArr [JStr (lit t)]),
               (''link'', JArr [JStr (lit ''https://example.com/'' @ lit t)]),
               (''pubDate'', JArr [JStr (lit ''Mon, 02 Nov 2026'')])] @
              (if ds = [] then [] else [(''description'', JArr (map (\<lambda>d. JStr (lit d)) ds))])))"

definition feed_tree :: "(string \<times> string list) list \<Rightarrow> jsval" where
  "feed_tree items =
     JObj [(''rss'', JObj [(''channel'', JArr [JObj [(''item'', JArr (map feed_item_tree items))]])])]"

definition described_feed :: "(string \<times> string list) list \<Rightarrow> world" where
  "described_feed items = answering (Resolved (JStr (feed_xml items))) (Parsed (feed_tree items))"

text \<open>The feed whose items have the given titles and no description.\<close>

definition feed_world :: "string list \<Rightarrow> world" where
  "feed_world ts = described_feed (map (\<lambda>t. (t, [])) ts)"

text \<open>The feed of seven items used below; three of its first five have a description.\<close>

definition seven_items :: "(string \<times> string list) list" where
  "seven_items =
     [(''a'', [''About a'']), (''b'', []), (''c'', [''About c'', ''More'']), (''d'', []),
      (''e'', [''About e'']), (''f'', []), (''g'', [''About g''])]"

definition example_article :: "string \<Rightarrow> string \<Rightarrow> jsval" where
  "example_article t d =
     JObj [(''title'', JStr (lit t)),
           (''link'', JStr (lit ''https://example.com/'' @ lit t)),
           (''pubDate'', JStr (lit ''Mon, 02 Nov 2026'')),
           (''description'', JStr (lit d))]"

text \<open>A chat completion whose first choice carries the text \<open>t\<close>.\<close>

definition completion :: "jsstring \<Rightarrow> jsval" where
  "completion t = JObj [(''choices'', JArr [JObj [(''message'', JObj [(''content'', JStr t)])]])]"

section \<open>Auxiliary facts\<close>

lemma lit_append: "lit (a @ b) = lit a @ lit b"
  by (simp add: lit_def)

lemma seq_Inr_iff: "seq m f = Inr y \<longleftrightarrow> (\<exists>x. m = Inr x \<and> f x = Inr y)"
  by (cases m) (simp_all add: seq_def)

lemma seq_Inr [simp]: "seq (Inr x) f = f x" by (simp add: seq_def)

lemma seq_Inl [simp]: "seq (Inl e) f = Inl e" by (simp add: seq_def)

lemma unreserved_not_surrogate: "unreserved c \<Longrightarrow> \<not> high_surrogate c \<and> \<not> low_surrogate c"
  by (auto simp: unreserved_def high_surrogate_def low_surrogate_def word_le_nat_alt)

lemma encodeURIComponent_total:
  "well_formed s \<Longrightarrow> \<exists>m. encodeURIComponent s = Inr m"
proof (induction s rule: well_formed.induct)
  case 1
  then show ?case by simp
next
  case (2 c cs)
  show ?case
  proof (cases "high_surrogate c")
    case True
    with "2.prems" obtain d ds where cs: "cs = d # ds" and d: "low_surrogate d" and wf: "well_formed ds"
      by (auto split: list.splits)
    from "2.IH"(1) [OF True cs wf] obtain m where "encodeURIComponent ds = Inr m" ..
    with True cs d show ?thesis by (auto dest: unreserved_not_surrogate)
  next
    case False
    with "2.prems" have low: "\<not> low_surrogate c" and wf: "well_formed cs" by simp_all
    from "2.IH"(2) [OF False wf] obtain m where "encodeURIComponent cs = Inr m" ..
    with False low show ?thesis by simp
  qed
qed

lemma encode_scope: "encodeURIComponent (lit ''w_member_social'') = Inr (lit ''w_member_social'')"
  by (simp add: lit_def unreserved_def)

lemma encode_bitcoin: "encodeURIComponent (lit ''bitcoin'') = Inr (lit ''bitcoin'')"
  by (simp add: lit_def unreserved_def)


lemma encode_redirect_uri:
  "encodeURIComponent (lit ''https://app.example/cb'') = Inr (lit ''https%3A%2F%2Fapp.example%2Fcb'')"
  by (simp add: lit_def unreserved_def high_surrogate_def low_surrogate_def escape_def
      utf8_def percent_def hex_digit_def)

lemma map_js_all:
  "(\<forall>x\<in>set xs. f x = Inr (g x)) \<Longrightarrow> map_js f xs = Inr (map g xs)"
  by (induction xs) simp_all

lemma item_value:
  "has_element item k \<Longrightarrow> seq (get_prop item k) index0 = Inr (first_value item k)"
proof -
  assume h: "has_element item k"
  then obtain v where v: "get_prop item k = Inr v" and nn: "\<not> nullish v"
    by (cases item) (simp_all add: has_element_def nullish_def opt_prop_def)
  from nn obtain x where x: "index0 v = Inr x"
    by (cases v) (simp_all add: nullish_def)
  from v x show ?thesis by (simp add: first_value_def opt_prop_def)
qed

lemma has_element_iff:
  "has_element item k \<longleftrightarrow> (\<exists>v. seq (get_prop item k) index0 = Inr v)"
proof
  assume "has_element item k"
  then show "\<exists>v. seq (get_prop item k) index0 = Inr v" by (auto dest: item_value)
next
  assume "\<exists>v. seq (get_prop item k) index0 = Inr v"
  then obtain p v where p: "get_prop item k = Inr p" and v: "index0 p = Inr v"
    by (auto simp: seq_Inr_iff)
  from p have "\<not> nullish item" by (cases item) (simp_all add: nullish_def)
  moreover from v have "\<not> nullish p" by (cases p) (simp_all add: nullish_def)
  ultimately show "has_element item k" using p by (simp add: has_element_def opt_prop_def)
qed

lemma item_description:
  assumes "\<not> nullish item"
  obtains d where "get_prop item ''description'' = Inr d"
    and "(if truthy d then index0 d else Inr (JStr (lit ''No description available''))) =
         Inr (if truthy (opt_prop item ''description'') then first_value item ''description''
              else JStr (lit ''No description available''))"
proof -
  from assms obtain d where d: "get_prop item ''description'' = Inr d"
    by (cases item) (simp_all add: nullish_def)
  have "truthy d \<Longrightarrow> \<exists>x. index0 d = Inr x"
    by (cases d) simp_all
  with d have "(if truthy d then index0 d else Inr (JStr (lit ''No description available''))) =
         Inr (if truthy (opt_prop item ''description'') then first_value item ''description''
              else JStr (lit ''No description available''))"
    by (auto simp: first_value_def opt_prop_def)
  with d show ?thesis by (rule that)
qed

lemma to_article_elements:
  assumes "has_element item ''title''" "has_element item ''link''" "has_element item ''pubDate''"
  shows "to_article item =
     Inr (JObj [(''title'', first_value item ''title''),
                (''link'', first_value item ''link''),
                (''pubDate'', first_value item ''pubDate''),
                (''description'',
                 if truthy (opt_prop item ''description'') then first_value item ''description''
                 else JStr (lit ''No description available''))])"
proof -
  from assms(1) have nn: "\<not> nullish item" by (simp add: has_element_def)
  from item_description [OF nn] obtain d where d: "get_prop item ''description'' = Inr d"
    and description:
      "(if truthy d then index0 d else Inr (JStr (lit ''No description available''))) =
       Inr (if truthy (opt_prop item ''description'') then first_value item ''description''
            else JStr (lit ''No description available''))"
    by blast
  show ?thesis
    unfolding to_article_def
    by (simp only: item_value [OF assms(1)] item_value [OF assms(2)] item_value [OF assms(3)]
        d description seq_Inr)
qed

lemma feed_item_elements:
  "has_element (feed_item_tree item) ''title'' \<and> has_element (feed_item_tree item) ''link'' \<and>
   has_element (feed_item_tree item) ''pubDate''"
  by (cases item)
     (simp add: feed_item_tree_def has_element_def nullish_def opt_prop_def own_prop_def)

lemma last_dropWhile: "dropWhile P xs \<noteq> [] \<Longrightarrow> last (dropWhile P xs) = last xs"
  by (induction xs) (auto split: if_splits)

lemma trim_last: "trim s \<noteq> [] \<Longrightarrow> \<not> whitespace (last (trim s))"
proof -
  assume ne: "trim s \<noteq> []"
  let ?t = "dropWhile whitespace (rev (dropWhile whitespace s))"
  from ne have t: "?t \<noteq> []" by (simp add: trim_def)
  have "last (trim s) = hd ?t" using t by (simp add: trim_def last_rev)
  moreover have "\<not> whitespace (hd ?t)" using t by (rule hd_dropWhile)
  ultimately show ?thesis by simp
qed

lemma trim_hd: "trim s \<noteq> [] \<Longrightarrow> \<not> whitespace (hd (trim s))"
proof -
  assume ne: "trim s \<noteq> []"
  let ?u = "dropWhile whitespace s"
  let ?t = "dropWhile whitespace (rev ?u)"
  from ne have t: "?t \<noteq> []" by (simp add: trim_def)
  then have u: "?u \<noteq> []" by (cases "?u") simp_all
  have "hd (trim s) = last ?t" using t by (simp add: trim_def hd_rev)
  also have "\<dots> = last (rev ?u)" using t by (rule last_dropWhile)
  also have "\<dots> = hd ?u" using u by (simp add: last_rev)
  finally have "hd (trim s) = hd ?u" .
  moreover have "\<not> whitespace (hd ?u)" using u by (rule hd_dropWhile)
  ultimately show ?thesis by simp
qed

lemma call_trim_Inr: "call_trim v = Inr p \<Longrightarrow> \<exists>s. v = JStr s \<and> p = JStr (trim s)"
  by (cases v) (simp_all add: call_trim_def)

lemma first_choice_text_Inr:
  "first_choice_text data = Inr p \<Longrightarrow> \<exists>s. p = JStr (trim s)"
  by (auto simp: first_choice_text_def seq_Inr_iff dest: call_trim_Inr)

lemma trim_example: "trim (lit ''  Hi all \<newline>'') = lit ''Hi all''"
  by (simp add: trim_def lit_def whitespace_def)

lemma auth_linkedin_unconfigured:
  "\<not> truthy (env_val (LINKEDIN_CLIENT_ID cfg)) \<or> \<not> truthy (env_val (LINKEDIN_REDIRECT_URI cfg)) \<Longrightarrow>
     auth_linkedin cfg =
        Responded (Json 500 (JObj [(''error'', JStr (lit ''LinkedIn OAuth not configured''))]))"
  by (simp add: auth_linkedin_def error_body_def Let_def)

lemma authorization_url:
  "lit ''https://www.linkedin.com/oauth/v2/authorization'' @ lit ''?response_type=code&client_id='' @
     c @ lit ''&redirect_uri='' @ r @ lit ''&scope='' @ lit ''w_member_social'' =
   lit ''https://www.linkedin.com/oauth/v2/authorization?response_type=code&client_id='' @
     c @ lit ''&redirect_uri='' @ r @ lit ''&scope=w_member_social''"
  by (simp add: lit_def)

lemma auth_linkedin_configured:
  assumes "LINKEDIN_CLIENT_ID cfg = Some clientId" "clientId \<noteq> []"
    and "LINKEDIN_REDIRECT_URI cfg = Some redirectUri" "redirectUri \<noteq> []"
    and "encodeURIComponent redirectUri = Inr r"
  shows "auth_linkedin cfg =
        Responded (Redirect
          (lit ''https://www.linkedin.com/oauth/v2/authorization?response_type=code&client_id='' @
           clientId @ lit ''&redirect_uri='' @ r @ lit ''&scope=w_member_social''))"
proof -
  have "auth_linkedin cfg = Responded (Redirect
     (lit ''https://www.linkedin.com/oauth/v2/authorization'' @ lit ''?response_type=code&client_id='' @
      clientId @ lit ''&redirect_uri='' @ r @ lit ''&scope='' @ lit ''w_member_social''))"
    using assms by (simp add: auth_linkedin_def env_val_def env_text_def encode_scope Let_def)
  then show ?thesis by (simp only: authorization_url)
qed

section \<open>GET /news: the articles returned\<close>

text \<open>
  C1, as amended. For a request to GET /news with a non-empty keyword that can be
  rendered as well-formed text, a feed that is fetched and parsed, and a tree that
  has \<^verbatim>\<open>rss.channel[0].item\<close> with the list \<open>items\<close>, of which each of the first five
  has \<^verbatim>\<open>title\<close>, \<^verbatim>\<open>link\<close> and \<^verbatim>\<open>pubDate\<close> elements: the handler answers with status 200
  and \<open>min 5 (length items)\<close> articles, so never more than 5; the article at position
  \<open>i\<close> is made from the item at position \<open>i\<close> of the feed; its title, link and
  publication date are the first values of those elements of the item, and its
  description is the first description value of the item or the placeholder. The
  handler does not look at whether the title or the link is empty.
\<close>

theorem news_first_five:
  assumes keyword: "truthy (own_prop query ''keyword'')"
    and rendered: "to_string (Number_toString w) (own_prop query ''keyword'') = Inr keywordText"
    and url: "encodeURIComponent keywordText = Inr k"
    and fetched: "axios w (HttpGet (lit ''https://news.google.com/rss/search?q='' @ k)) = Resolved data"
    and parsed: "parseString w data = Parsed result"
    and rss: "get_prop result ''rss'' = Inr rss" "truthy rss"
    and channel: "get_prop rss ''channel'' = Inr channel" "truthy channel"
    and channel0: "index0 channel = Inr channel0" "truthy channel0"
    and item: "get_prop channel0 ''item'' = Inr (JArr items)"
    and elements: "\<forall>item\<in>set (take 5 items).
        has_element item ''title'' \<and> has_element item ''link'' \<and> has_element item ''pubDate''"
  shows "\<exists>articles.
           news w query =
             (Responded (Json 200 (JObj [(''articles'', JArr articles)])),
              [HttpGet (lit ''https://news.google.com/rss/search?q='' @ k)]) \<and>
           length articles = min 5 (length items) \<and> length articles \<le> 5 \<and>
           (\<forall>i<length articles.
              articles ! i =
                JObj [(''title'', first_value (items ! i) ''title''),
                      (''link'', first_value (items ! i) ''link''),
                      (''pubDate'', first_value (items ! i) ''pubDate''),
                      (''description'',
                       if truthy (opt_prop (items ! i) ''description'')
                       then first_value (items ! i) ''description''
                       else JStr (lit ''No description available''))])"
proof -
  define article where "article = (\<lambda>item.
     JObj [(''title'', first_value item ''title''),
           (''link'', first_value item ''link''),
           (''pubDate'', first_value item ''pubDate''),
           (''description'',
            if truthy (opt_prop item ''description'') then first_value item ''description''
            else JStr (lit ''No description available''))])"
  let ?articles = "map article (take 5 items)"
  have "\<forall>item\<in>set (take 5 items). to_article item = Inr (article item)"
    using elements by (simp add: article_def to_article_elements)
  then have mapped: "map_js to_article (take 5 items) = Inr ?articles"
    by (rule map_js_all)
  have "news_parsed result = Inr (Json 200 (JObj [(''articles'', JArr ?articles)]))"
    using rss channel channel0 item mapped by (simp add: news_parsed_def slice_0_5_def)
  then have resp: "news w query =
      (Responded (Json 200 (JObj [(''articles'', JArr ?articles)])),
       [HttpGet (lit ''https://news.google.com/rss/search?q='' @ k)])"
    using keyword rendered url fetched parsed by (simp add: news_def Let_def)
  have len: "length ?articles = min 5 (length items)" by (simp add: min_def)
  have each: "?articles ! i = article (items ! i)" if "i < length ?articles" for i
    using that by simp
  show ?thesis
  proof (intro exI conjI allI impI)
    show "news w query =
      (Responded (Json 200 (JObj [(''articles'', JArr ?articles)])),
       [HttpGet (lit ''https://news.google.com/rss/search?q='' @ k)])"
      by (rule resp)
    show "length ?articles = min 5 (length items)" by (rule len)
    show "length ?articles \<le> 5" by simp
  next
    fix i assume "i < length ?articles"
    then have "?articles ! i = article (items ! i)" by (rule each)
    then show "?articles ! i =
        JObj [(''title'', first_value (items ! i) ''title''),
              (''link'', first_value (items ! i) ''link''),
              (''pubDate'', first_value (items ! i) ''pubDate''),
              (''description'',
               if truthy (opt_prop (items ! i) ''description'')
               then first_value (items ! i) ''description''
               else JStr (lit ''No description available''))]"
      by (simp only: article_def)
  qed
qed

text \<open>
  The example of the specification: a feed with 7 items gives the articles of the
  first 5, in feed order; of an item with two descriptions the first is taken.
\<close>

theorem news_first_five_witness:
  "news (described_feed seven_items) [(''keyword'', JStr (lit ''bitcoin''))] =
     (Responded (Json 200 (JObj [(''articles'',
        JArr [example_article ''a'' ''About a'',
              example_article ''b'' ''No description available'',
              example_article ''c'' ''About c'',
              example_article ''d'' ''No description available'',
              example_article ''e'' ''About e''])])),
      [HttpGet (lit ''https://news.google.com/rss/search?q=bitcoin'')])"
proof -
  let ?w = "described_feed seven_items"
  let ?q = "[(''keyword'', JStr (lit ''bitcoin''))]"
  let ?items = "map feed_item_tree seven_items"
  let ?expected = "[example_article ''a'' ''About a'',
              example_article ''b'' ''No description available'',
              example_article ''c'' ''About c'',
              example_article ''d'' ''No description available'',
              example_article ''e'' ''About e'']"
  have keyword: "truthy (own_prop ?q ''keyword'')"
    by (simp add: own_prop_def lit_def)
  have rendered: "to_string (Number_toString ?w) (own_prop ?q ''keyword'') = Inr (lit ''bitcoin'')"
    by (simp add: own_prop_def)
  have fetched: "axios ?w (HttpGet (lit ''https://news.google.com/rss/search?q='' @ lit ''bitcoin'')) =
      Resolved (JStr (feed_xml seven_items))"
    by (simp add: described_feed_def answering_def)
  have parsed: "parseString ?w (JStr (feed_xml seven_items)) = Parsed (feed_tree seven_items)"
    by (simp add: described_feed_def answering_def)
  have rss: "get_prop (feed_tree seven_items) ''rss'' =
      Inr (JObj [(''channel'', JArr [JObj [(''item'', JArr ?items)]])])"
    by (simp add: feed_tree_def own_prop_def)
  have channel: "get_prop (JObj [(''channel'', JArr [JObj [(''item'', JArr ?items)]])]) ''channel'' =
      Inr (JArr [JObj [(''item'', JArr ?items)]])"
    by (simp add: own_prop_def)
  have channel0: "index0 (JArr [JObj [(''item'', JArr ?items)]]) = Inr (JObj [(''item'', JArr ?items)])"
    by simp
  have item: "get_prop (JObj [(''item'', JArr ?items)]) ''item'' = Inr (JArr ?items)"
    by (simp add: own_prop_def)
  have elements: "\<forall>item\<in>set (take 5 ?items).
      has_element item ''title'' \<and> has_element item ''link'' \<and> has_element item ''pubDate''"
    using feed_item_elements by (auto dest!: in_set_takeD)
  from news_first_five [OF keyword rendered encode_bitcoin fetched parsed rss _ channel _ channel0 _
      item elements]
  obtain articles where
    resp: "news ?w ?q =
      (Responded (Json 200 (JObj [(''articles'', JArr articles)])),
       [HttpGet (lit ''https://news.google.com/rss/search?q='' @ lit ''bitcoin'')])"
    and len: "length articles = min 5 (length ?items)"
    and each: "\<forall>i<length articles.
        articles ! i =
          JObj [(''title'', first_value (?items ! i) ''title''),
                (''link'', first_value (?items ! i) ''link''),
                (''pubDate'', first_value (?items ! i) ''pubDate''),
                (''description'',
                 if truthy (opt_prop (?items ! i) ''description'')
                 then first_value (?items ! i) ''description''
                 else JStr (lit ''No description available''))]"
    by auto
  from len have len5: "length articles = 5" by (simp add: seven_items_def)
  have "articles = ?expected"
  proof (rule nth_equalityI)
    show "length articles = length ?expected" using len5 by simp
  next
    fix i assume "i < length articles"
    with len5 have i: "i = 0 \<or> i = 1 \<or> i = 2 \<or> i = 3 \<or> i = 4" by arith
    from each \<open>i < length articles\<close> have a: "articles ! i =
          JObj [(''title'', first_value (?items ! i) ''title''),
                (''link'', first_value (?items ! i) ''link''),
                (''pubDate'', first_value (?items ! i) ''pubDate''),
                (''description'',
                 if truthy (opt_prop (?items ! i) ''description'')
                 then first_value (?items ! i) ''description''
                 else JStr (lit ''No description available''))]"
      by simp
    from i show "articles ! i = ?expected ! i"
      unfolding a
      by (elim disjE)
         (simp_all add: seven_items_def feed_item_tree_def first_value_def opt_prop_def
            own_prop_def example_article_def lit_def)
  qed
  with resp show ?thesis by (simp add: lit_append [symmetric])
qed

text \<open>
  C1 as stated also requires every returned article to have a non-empty title. The
  feed \<^verbatim>\<open><item><title></title>...</item>\<close> has the expected structure, and its
  article is returned with the empty string as title.
\<close>

theorem news_empty_title_counterexample:
  "news (described_feed [([], [''Untitled''])]) [(''keyword'', JStr (lit ''bitcoin''))] =
     (Responded (Json 200 (JObj [(''articles'',
        JArr [JObj [(''title'', JStr []),
                    (''link'', JStr (lit ''https://example.com/'')),
                    (''pubDate'', JStr (lit ''Mon, 02 Nov 2026'')),
                    (''description'', JStr (lit ''Untitled''))]])])),
      [HttpGet (lit ''https://news.google.com/rss/search?q=bitcoin'')])"
  by (simp add: news_def own_prop_def encode_bitcoin described_feed_def answering_def
      news_parsed_def feed_tree_def slice_0_5_def feed_item_tree_def to_article_def
      lit_append [symmetric])
     (simp add: lit_def)

section \<open>GET /auth/linkedin/callback\<close>




section \<open>Request validation\<close>

text \<open>
  C3. A request to GET /news without the \<^verbatim>\<open>keyword\<close> query parameter is answered
  with status 400 and the body \<^verbatim>\<open>{"error":"Keyword is required"}\<close>, and no outbound
  HTTP request is made.
\<close>

theorem news_keyword_omitted:
  assumes "map_of query ''keyword'' = None"
  shows "news w query =
           (Responded (Json 400 (JObj [(''error'', JStr (lit ''Keyword is required''))])), [])"
  using assms by (simp add: news_def own_prop_def error_body_def)

text \<open>
  A query with another parameter only.
\<close>

theorem news_keyword_omitted_witness:
  "news (feed_world [''a'']) [(''q'', JStr (lit ''bitcoin''))] =
     (Responded (Json 400 (JObj [(''error'', JStr (lit ''Keyword is required''))])), [])"
  using news_keyword_omitted [of "[(''q'', JStr (lit ''bitcoin''))]" "feed_world [''a'']"]
  by simp









section \<open>POST /generate-post: the drafted post\<close>

text \<open>
  C7. Whenever POST /generate-post succeeds, the \<^verbatim>\<open>post\<close> it returns is a string
  without leading or trailing white space: it is empty, or neither its first nor its
  last code unit is white space (ECMAScript's WhiteSpace and LineTerminator, the
  characters \<^verbatim>\<open>trim\<close> removes).
\<close>

theorem generate_post_trimmed:
  assumes "fst (generate_post w cfg body) = Responded (Json 200 b)"
  shows "\<exists>s. b = JObj [(''post'', JStr s)] \<and>
             (s = [] \<or> \<not> whitespace (hd s) \<and> \<not> whitespace (last s))"
proof -
  from assms obtain data p where p: "first_choice_text data = Inr p" and b: "b = JObj [(''post'', p)]"
    by (auto simp: generate_post_def generate_failure_def error_body_def
             split: sum.splits if_splits axios_result.splits)
  from first_choice_text_Inr [OF p] obtain t where "p = JStr (trim t)" ..
  with b trim_hd [of t] trim_last [of t] show ?thesis by auto
qed

text \<open>
  A successful call: the upstream text \<^verbatim>\<open>"  Hi all \n"\<close> is returned as \<^verbatim>\<open>"Hi all"\<close>.
\<close>

theorem generate_post_trimmed_witness:
  "fst (generate_post
         (answering (Resolved (completion (lit ''  Hi all \<newline>''))) ParseError)
         example_config
         (JObj [(''articles'', JArr [JObj [(''title'', JStr (lit ''T'')),
                                          (''description'', JStr (lit ''D''))]])])) =
     Responded (Json 200 (JObj [(''post'', JStr (lit ''Hi all''))])) \<and>
   \<not> whitespace (hd (lit ''Hi all'')) \<and> \<not> whitespace (last (lit ''Hi all''))"
proof -
  let ?w = "answering (Resolved (completion (lit ''  Hi all \<newline>''))) ParseError"
  let ?body = "JObj [(''articles'', JArr [JObj [(''title'', JStr (lit ''T'')),
                                              (''description'', JStr (lit ''D''))]])]"
  have run: "fst (generate_post ?w example_config ?body) =
      Responded (Json 200 (JObj [(''post'', JStr (lit ''Hi all''))]))"
    by (simp add: generate_post_def own_prop_def is_array_def elements_def prompt_content_def
        article_line_def answering_def completion_def first_choice_text_def call_trim_def
        trim_example)
  from generate_post_trimmed [OF run] have
    "lit ''Hi all'' = [] \<or> \<not> whitespace (hd (lit ''Hi all'')) \<and> \<not> whitespace (last (lit ''Hi all''))"
    by simp
  moreover have "lit ''Hi all'' \<noteq> []" by (simp add: lit_def)
  ultimately show ?thesis using run by simp
qed

section \<open>GET /news: the description of an article\<close>

text \<open>
  C8. A feed item that has \<^verbatim>\<open>title\<close>, \<^verbatim>\<open>link\<close> and \<^verbatim>\<open>pubDate\<close> elements is mapped to an
  article. If the item has no \<^verbatim>\<open>description\<close>, the article's description is the
  placeholder \<^verbatim>\<open>"No description available"\<close>; if it has, the article's description is
  the first of the item's description values. (xml2js gives each child element name
  of an item the non-empty array of the values of its occurrences.)
\<close>

theorem article_description:
  assumes "has_element item ''title''" "has_element item ''link''" "has_element item ''pubDate''"
  shows "(get_prop item ''description'' = Inr JUndefined \<longrightarrow>
            to_article item =
              Inr (JObj [(''title'', first_value item ''title''),
                         (''link'', first_value item ''link''),
                         (''pubDate'', first_value item ''pubDate''),
                         (''description'', JStr (lit ''No description available''))])) \<and>
         (get_prop item ''description'' = Inr (JArr (d # ds)) \<longrightarrow>
            to_article item =
              Inr (JObj [(''title'', first_value item ''title''),
                         (''link'', first_value item ''link''),
                         (''pubDate'', first_value item ''pubDate''),
                         (''description'', d)]))"
  using to_article_elements [OF assms]
  by (auto simp: opt_prop_def first_value_def)

text \<open>
  An item without description, and an item with two description values.
\<close>

theorem article_description_witness:
  "to_article (JObj [(''title'', JArr [JStr (lit ''t'')]),
                     (''link'', JArr [JStr (lit ''l'')]),
                     (''pubDate'', JArr [JStr (lit ''p'')])]) =
     Inr (JObj [(''title'', JStr (lit ''t'')), (''link'', JStr (lit ''l'')),
                (''pubDate'', JStr (lit ''p'')),
                (''description'', JStr (lit ''No description available''))]) \<and>
   to_article (JObj [(''title'', JArr [JStr (lit ''t'')]),
                     (''link'', JArr [JStr (lit ''l'')]),
                     (''pubDate'', JArr [JStr (lit ''p'')]),
                     (''description'', JArr [JStr (lit ''first''), JStr (lit ''second'')])]) =
     Inr (JObj [(''title'', JStr (lit ''t'')), (''link'', JStr (lit ''l'')),
                (''pubDate'', JStr (lit ''p'')), (''description'', JStr (lit ''first''))])"
  using
    article_description
      [where item = "JObj [(''title'', JArr [JStr (lit ''t'')]),
                           (''link'', JArr [JStr (lit ''l'')]),
                           (''pubDate'', JArr [JStr (lit ''p'')])]"]
    article_description
      [where item = "JObj [(''title'', JArr [JStr (lit ''t'')]),
                           (''link'', JArr [JStr (lit ''l'')]),
                           (''pubDate'', JArr [JStr (lit ''p'')]),
                           (''description'', JArr [JStr (lit ''first''), JStr (lit ''second'')])]"
         and d = "JStr (lit ''first'')" and ds = "[JStr (lit ''second'')]"]
  by (simp add: has_element_def nullish_def opt_prop_def own_prop_def first_value_def)

section \<open>GET /auth/linkedin\<close>

text \<open>
  C9, as amended. If the configured client id or redirect URI is unset or empty, GET
  /auth/linkedin is answered with status 500 and the body
  \<^verbatim>\<open>{"error":"LinkedIn OAuth not configured"}\<close>. If both are set and not empty, the
  redirect URI being well-formed text, the handler redirects to the authorization
  URL with \<^verbatim>\<open>response_type=code\<close>, the client id, the URL-encoded redirect URI and the
  scope \<^verbatim>\<open>w_member_social\<close>.
\<close>

theorem auth_linkedin_outcomes:
  "(LINKEDIN_CLIENT_ID cfg \<in> {None, Some []} \<or> LINKEDIN_REDIRECT_URI cfg \<in> {None, Some []} \<longrightarrow>
      auth_linkedin cfg =
        Responded (Json 500 (JObj [(''error'', JStr (lit ''LinkedIn OAuth not configured''))]))) \<and>
   (LINKEDIN_CLIENT_ID cfg = Some clientId \<and> clientId \<noteq> [] \<and>
    LINKEDIN_REDIRECT_URI cfg = Some redirectUri \<and> redirectUri \<noteq> [] \<and>
    encodeURIComponent redirectUri = Inr r \<longrightarrow>
      auth_linkedin cfg =
        Responded (Redirect
          (lit ''https://www.linkedin.com/oauth/v2/authorization?response_type=code&client_id='' @
           clientId @ lit ''&redirect_uri='' @ r @ lit ''&scope=w_member_social'')))"
proof (intro conjI impI)
  assume "LINKEDIN_CLIENT_ID cfg \<in> {None, Some []} \<or> LINKEDIN_REDIRECT_URI cfg \<in> {None, Some []}"
  then have "\<not> truthy (env_val (LINKEDIN_CLIENT_ID cfg)) \<or> \<not> truthy (env_val (LINKEDIN_REDIRECT_URI cfg))"
    by (auto simp: env_val_def)
  then show "auth_linkedin cfg =
        Responded (Json 500 (JObj [(''error'', JStr (lit ''LinkedIn OAuth not configured''))]))"
    by (rule auth_linkedin_unconfigured)
next
  assume "LINKEDIN_CLIENT_ID cfg = Some clientId \<and> clientId \<noteq> [] \<and>
    LINKEDIN_REDIRECT_URI cfg = Some redirectUri \<and> redirectUri \<noteq> [] \<and>
    encodeURIComponent redirectUri = Inr r"
  then show "auth_linkedin cfg =
        Responded (Redirect
          (lit ''https://www.linkedin.com/oauth/v2/authorization?response_type=code&client_id='' @
           clientId @ lit ''&redirect_uri='' @ r @ lit ''&scope=w_member_social''))"
    by (elim conjE) (rule auth_linkedin_configured)
qed

text \<open>
  Both outcomes: the redirect URI unset, and the example configuration.
\<close>

theorem auth_linkedin_outcomes_witness:
  "auth_linkedin (example_config\<lparr>LINKEDIN_REDIRECT_URI := None\<rparr>) =
     Responded (Json 500 (JObj [(''error'', JStr (lit ''LinkedIn OAuth not configured''))])) \<and>
   auth_linkedin example_config =
     Responded (Redirect
       (lit ''https://www.linkedin.com/oauth/v2/authorization?response_type=code&client_id='' @
        lit ''id123'' @ lit ''&redirect_uri='' @ lit ''https%3A%2F%2Fapp.example%2Fcb'' @
        lit ''&scope=w_member_social''))"
proof -
  have unset: "LINKEDIN_REDIRECT_URI (example_config\<lparr>LINKEDIN_REDIRECT_URI := None\<rparr>) = None"
    by simp
  have id: "LINKEDIN_CLIENT_ID example_config = Some (lit ''id123'')" "lit ''id123'' \<noteq> []"
    by (simp_all add: example_config_def lit_def)
  have uri: "LINKEDIN_REDIRECT_URI example_config = Some (lit ''https://app.example/cb'')"
      "lit ''https://app.example/cb'' \<noteq> []"
    by (simp_all add: example_config_def lit_def)
  from auth_linkedin_outcomes [of "example_config\<lparr>LINKEDIN_REDIRECT_URI := None\<rparr>"] unset
  have "auth_linkedin (example_config\<lparr>LINKEDIN_REDIRECT_URI := None\<rparr>) =
     Responded (Json 500 (JObj [(''error'', JStr (lit ''LinkedIn OAuth not configured''))]))"
    by blast
  moreover
  from auth_linkedin_outcomes [of example_config "lit ''id123''" "lit ''https://app.example/cb''"
       "lit ''https%3A%2F%2Fapp.example%2Fcb''"] id uri encode_redirect_uri
  have "auth_linkedin example_config =
     Responded (Redirect
       (lit ''https://www.linkedin.com/oauth/v2/authorization?response_type=code&client_id='' @
        lit ''id123'' @ lit ''&redirect_uri='' @ lit ''https%3A%2F%2Fapp.example%2Fcb'' @
        lit ''&scope=w_member_social''))"
    by blast
  ultimately show ?thesis by blast
qed

text \<open>
  C9 as stated promises the redirect whenever both variables are set. With
  \<^verbatim>\<open>LINKEDIN_CLIENT_ID=\<close> the client id is set, to the empty string, and the handler
  answers with status 500.
\<close>

theorem auth_linkedin_empty_id_counterexample:
  "LINKEDIN_CLIENT_ID (example_config\<lparr>LINKEDIN_CLIENT_ID := Some []\<rparr>) \<noteq> None \<and>
   LINKEDIN_REDIRECT_URI (example_config\<lparr>LINKEDIN_CLIENT_ID := Some []\<rparr>) \<noteq> None \<and>
   auth_linkedin (example_config\<lparr>LINKEDIN_CLIENT_ID := Some []\<rparr>) =
     Responded (Json 500 (JObj [(''error'', JStr (lit ''LinkedIn OAuth not configured''))]))"
  by (simp add: auth_linkedin_def example_config_def env_val_def error_body_def)

section \<open>Empty strings\<close>

text \<open>
  C10. The validators treat an empty string as an absent input: GET /news with
  \<^verbatim>\<open>keyword\<close> equal to the empty string, and POST /linkedin/post with \<^verbatim>\<open>token\<close> or
  \<^verbatim>\<open>content\<close> equal to the empty string, are answered with status 400 and the error body
  of the missing-field case, and no outbound request is made.
\<close>

theorem empty_string_as_absent:
  "(map_of query ''keyword'' = Some (JStr []) \<longrightarrow>
      news w query =
        (Responded (Json 400 (JObj [(''error'', JStr (lit ''Keyword is required''))])), [])) \<and>
   (get_prop body ''token'' = Inr token \<and> get_prop body ''content'' = Inr content \<and>
    (token = JStr [] \<or> content = JStr []) \<longrightarrow>
      linkedin_post w body =
        (Responded (Json 400 (JObj [(''error'', JStr (lit ''Token and content required''))])), []))"
  by (auto simp: news_def linkedin_post_def own_prop_def error_body_def)

text \<open>
  An empty keyword, an empty token, an empty content.
\<close>

theorem empty_string_as_absent_witness:
  "news (feed_world [''a'']) [(''keyword'', JStr [])] =
     (Responded (Json 400 (JObj [(''error'', JStr (lit ''Keyword is required''))])), []) \<and>
   linkedin_post (answering (Resolved JNull) ParseError)
     (JObj [(''token'', JStr []), (''content'', JStr (lit ''Hello''))]) =
     (Responded (Json 400 (JObj [(''error'', JStr (lit ''Token and content required''))])), []) \<and>
   linkedin_post (answering (Resolved JNull) ParseError)
     (JObj [(''token'', JStr (lit ''tok'')), (''content'', JStr [])]) =
     (Responded (Json 400 (JObj [(''error'', JStr (lit ''Token and content required''))])), [])"
  using
    empty_string_as_absent [where query = "[(''keyword'', JStr [])]"
      and w = "feed_world [''a'']"]
    empty_string_as_absent [where w = "answering (Resolved JNull) ParseError"
      and body = "JObj [(''token'', JStr []), (''content'', JStr (lit ''Hello''))]"
      and token = "JStr []" and content = "JStr (lit ''Hello'')"]
    empty_string_as_absent [where w = "answering (Resolved JNull) ParseError"
      and body = "JObj [(''token'', JStr (lit ''tok'')), (''content'', JStr [])]"
      and token = "JStr (lit ''tok'')" and content = "JStr []"]
  by (simp add: own_prop_def)

end

